theory Spec2Isabelle
  imports Main
begin

section \<open>Token records, the token file and the outside world\<close>

text \<open>
  The scripts keep the token set as the dictionary that \<open>json.load\<close> returns. The keys
  the code reads or writes are fields here, each absent (\<open>None\<close>) or present; every
  other key of the document (\<open>token_type\<close>, \<open>scope\<close>, ...) is carried along in
  \<open>other\<close>. The lifetime and the expiry stamps are JSON integers when present.
  \<open>exp\<close> is the absolute expiry that \<open>saxo_client.py\<close> and \<open>QQQ.py\<close> compute,
  \<open>expiry_ts\<close> the one of \<open>bot-token-dennik.py\<close>.
\<close>

record token =
  access_token :: "string option"
  refresh_token :: "string option"
  expires_in :: "int option"
  exp :: "int option"
  expiry_ts :: "int option"
  other :: "(string \<times> string) list"

definition empty_token :: token where
  "empty_token = \<lparr>access_token = None, refresh_token = None, expires_in = None,
     exp = None, expiry_ts = None, other = []\<rparr>"

text \<open>
  A file is what a reader gets from it: a complete JSON document holding a dictionary, or
  text that \<open>json.load\<close> rejects (an empty or half-written file among them). \<open>mode\<close>
  holds the permission bits. \<open>TMP_FILE\<close> is \<open>TOKEN_FILE.with_suffix(".tmp")\<close>.
\<close>

datatype path = TOKEN_FILE | TMP_FILE

datatype content = Document token | Unparsable

record tfile =
  content :: content
  mode :: nat

text \<open>What the token endpoint answers to one POST, and what the API answers to one request.\<close>

datatype reply =
    Body token       \<comment> \<open>2xx with a JSON object\<close>
  | BadBody          \<comment> \<open>2xx whose body \<open>json.loads\<close> rejects\<close>
  | HttpError nat    \<comment> \<open>an error status: \<open>urllib\<close> raises \<open>HTTPError\<close>, \<open>raise_for_status\<close> raises\<close>
  | NetError         \<comment> \<open>any other exception of \<open>urlopen\<close>: no connection, timeout\<close>

datatype api_reply =
    ApiOk string     \<comment> \<open>2xx, the decoded JSON kept as an opaque payload\<close>
  | ApiHttpError nat
  | ApiNetError

datatype meth = GET | POST

text \<open>
  A request URL is kept as its base and the query strings appended to it, each as the
  parameter list that \<open>urlencode\<close> was given.
\<close>

record http_request =
  req_method :: meth
  req_url :: string
  req_queries :: "(string \<times> string) list list"
  req_data :: "string option"
  req_bearer :: string

datatype event =
    Refresher string      \<comment> \<open>the token refresher was called with this refresh token\<close>
  | TokenPost string      \<comment> \<open>one POST to the token endpoint, \<open>grant_type=refresh_token\<close>\<close>
  | CodePost string       \<comment> \<open>one POST to the token endpoint, \<open>grant_type=authorization_code\<close>\<close>
  | Sleep nat             \<comment> \<open>\<open>time.sleep\<close>, in seconds\<close>
  | ApiRequest http_request
  | Warning               \<comment> \<open>\<open>log.warning\<close>\<close>

text \<open>
  The exceptions the code raises. The scripts raise \<open>RuntimeError\<close> throughout and tell
  the cases apart by message; the constructors carry the design's names for them.
\<close>

datatype error =
    NotAuthorized         \<comment> \<open>"Token subor chyba": no stored record\<close>
  | AuthRejected nat      \<comment> \<open>"HTTP error <code>": the token endpoint answered 4xx\<close>
  | TransientFailure      \<comment> \<open>"Nepodarilo sa obnovit token": every attempt failed\<close>
  | ReadError             \<comment> \<open>"Chyba pri citani token suboru": the token file cannot be read\<close>
  | DecodeError           \<comment> \<open>a \<open>JSONDecodeError\<close> that nothing catches\<close>
  | NoAccessToken         \<comment> \<open>"Po obnove nebol vrateny access_token"\<close>
  | KeyError string       \<comment> \<open>a missing dictionary key\<close>
  | HttpFailure nat       \<comment> \<open>"HTTP <code>" of the request wrapper, or \<open>raise_for_status\<close>\<close>
  | NetworkFailure        \<comment> \<open>an exception of the transport that nothing catches\<close>

text \<open>
  The world the scripts run in: the clock that \<open>int(time.time())\<close> reads, the files, the
  mode a newly created file gets, the replies the two servers will give (one is used up by
  each request; a server with no reply left does not answer), and the effects so far.
  \<open>jwt_exp\<close> stands for the library call \<open>jwt.decode(access, options={"verify_signature":
  False})\<close> followed by \<open>payload.get('exp')\<close>: the \<open>exp\<close> claim of an access token,
  \<open>None\<close> when the token does not decode or has no such claim.
\<close>

record world =
  clock :: int
  files :: "path \<Rightarrow> tfile option"
  create_mode :: nat
  token_endpoint :: "reply list"
  api_endpoint :: "api_reply list"
  jwt_exp :: "string \<Rightarrow> int option"
  trace :: "event list"

definition emit :: "event \<Rightarrow> world \<Rightarrow> world" where
  "emit e w = w\<lparr>trace := trace w @ [e]\<rparr>"

definition sleep :: "nat \<Rightarrow> world \<Rightarrow> world" where
  "sleep d w = emit (Sleep d) (w\<lparr>clock := clock w + int d\<rparr>)"

definition urlopen_token :: "string \<Rightarrow> world \<Rightarrow> reply \<times> world" where
  "urlopen_token refresh_tok w =
     (case token_endpoint w of
        [] \<Rightarrow> (NetError, emit (TokenPost refresh_tok) w)
      | r # rs \<Rightarrow> (r, emit (TokenPost refresh_tok) (w\<lparr>token_endpoint := rs\<rparr>)))"

definition urlopen_api :: "http_request \<Rightarrow> world \<Rightarrow> api_reply \<times> world" where
  "urlopen_api rq w =
     (case api_endpoint w of
        [] \<Rightarrow> (ApiNetError, emit (ApiRequest rq) w)
      | r # rs \<Rightarrow> (r, emit (ApiRequest rq) (w\<lparr>api_endpoint := rs\<rparr>)))"

definition token_posts :: "world \<Rightarrow> nat" where
  "token_posts w = length (filter (\<lambda>e. case e of TokenPost _ \<Rightarrow> True | _ \<Rightarrow> False) (trace w))"

definition refresher_calls :: "world \<Rightarrow> nat" where
  "refresher_calls w = length (filter (\<lambda>e. case e of Refresher _ \<Rightarrow> True | _ \<Rightarrow> False) (trace w))"

definition api_requests :: "world \<Rightarrow> http_request list" where
  "api_requests w = concat (map (\<lambda>e. case e of ApiRequest rq \<Rightarrow> [rq] | _ \<Rightarrow> []) (trace w))"

definition sleeps :: "world \<Rightarrow> nat list" where
  "sleeps w = concat (map (\<lambda>e. case e of Sleep d \<Rightarrow> [d] | _ \<Rightarrow> []) (trace w))"

definition stored :: "world \<Rightarrow> token option" where
  "stored w = (case files w TOKEN_FILE of
                 Some f \<Rightarrow> (case content f of Document d \<Rightarrow> Some d | Unparsable \<Rightarrow> None)
               | None \<Rightarrow> None)"


text \<open>
  The file operations the scripts perform, one step each, so that the states between two
  steps can be looked at. \<open>OpenW\<close> is \<open>open(path, "w")\<close>: it creates the file with the
  default mode or empties the one that is there, keeping its mode. \<open>Dump\<close> is
  \<open>json.dump\<close> up to the closing of the file: the complete document is in place.
  \<open>Replace\<close> is \<open>Path.replace\<close> (a rename over the target), \<open>Chmod\<close> and
  \<open>Unlink\<close> are the calls of the same name.
\<close>

datatype fs_op =
    OpenW path
  | Dump path token
  | Replace path path
  | Chmod path nat
  | Unlink path

fun fs_step :: "fs_op \<Rightarrow> world \<Rightarrow> world" where
  "fs_step (OpenW p) w =
     w\<lparr>files := (files w)(p \<mapsto> \<lparr>content = Unparsable,
        mode = (case files w p of None \<Rightarrow> create_mode w | Some f \<Rightarrow> mode f)\<rparr>)\<rparr>"
| "fs_step (Dump p d) w =
     w\<lparr>files := (files w)(p := map_option (\<lambda>f. f\<lparr>content := Document d\<rparr>) (files w p))\<rparr>"
| "fs_step (Replace src dst) w =
     w\<lparr>files := (files w)(dst := files w src, src := None)\<rparr>"
| "fs_step (Chmod p m) w =
     w\<lparr>files := (files w)(p := map_option (\<lambda>f. f\<lparr>mode := m\<rparr>) (files w p))\<rparr>"
| "fs_step (Unlink p) w = w\<lparr>files := (files w)(p := None)\<rparr>"

definition run_ops :: "fs_op list \<Rightarrow> world \<Rightarrow> world" where
  "run_ops ops w = fold fs_step ops w"

text \<open>
  The states of the file system that another process (or a crash) can meet while the
  operations run: the one before the first step and the one after each step.
\<close>

definition observable :: "fs_op list \<Rightarrow> world \<Rightarrow> world list" where
  "observable ops w = map (\<lambda>k. run_ops (take k ops) w) [0..<length ops + 1]"

text \<open>What a reader of the token file finds: no file, a complete record, or damaged text.\<close>

datatype seen = NoFile | Complete token | Damaged

definition read_token_file :: "world \<Rightarrow> seen" where
  "read_token_file w =
     (case files w TOKEN_FILE of
        None \<Rightarrow> NoFile
      | Some f \<Rightarrow> (case content f of Document d \<Rightarrow> Complete d | Unparsable \<Rightarrow> Damaged))"

definition owner_only :: nat where
  "owner_only = 6 * 64"   \<comment> \<open>\<open>0o600\<close>\<close>


section \<open>saxo\_client.py\<close>

subsection \<open>The refresher: \<open>_refresh_token\<close>\<close>

text \<open>
  \<open>for attempt in range(retries + 1)\<close>: the recursion runs over the attempts still to
  make. A decoded reply gets its absolute expiry and is returned; a 4xx raises at once;
  every other failure falls through to the sleep (made only when another attempt
  follows) and to the next attempt; leaving the loop raises.
\<close>

fun refresh_attempts :: "nat list \<Rightarrow> string \<Rightarrow> nat \<Rightarrow> nat \<Rightarrow> world \<Rightarrow> (error + token) \<times> world" where
  "refresh_attempts [] refresh_tok retries backoff w = (Inl TransientFailure, w)"
| "refresh_attempts (attempt # rest) refresh_tok retries backoff w =
     (let (r, w1) = urlopen_token refresh_tok w;
          w2 = (if attempt < retries then sleep (backoff * 2 ^ attempt) w1 else w1)
      in case r of
           Body d \<Rightarrow>
             (Inr (d\<lparr>exp := Some (clock w1 + (case expires_in d of None \<Rightarrow> 0 | Some n \<Rightarrow> n))\<rparr>), w1)
         | BadBody \<Rightarrow> refresh_attempts rest refresh_tok retries backoff w2
         | HttpError c \<Rightarrow>
             if 400 \<le> c \<and> c < 500 then (Inl (AuthRejected c), w1)
             else refresh_attempts rest refresh_tok retries backoff w2
         | NetError \<Rightarrow> refresh_attempts rest refresh_tok retries backoff w2)"

declare refresh_attempts.simps [simp del]

definition saxo_refresh_token :: "string \<Rightarrow> nat \<Rightarrow> nat \<Rightarrow> world \<Rightarrow> (error + token) \<times> world" where
  "saxo_refresh_token refresh_tok retries backoff w =
     refresh_attempts [0..<retries + 1] refresh_tok retries backoff (emit (Refresher refresh_tok) w)"

text \<open>The failures the design calls transient: a network error or a 5xx answer.\<close>

fun transient :: "reply \<Rightarrow> bool" where
  "transient NetError = True"
| "transient (HttpError c) = (500 \<le> c \<and> c < 600)"
| "transient _ = False"


subsection \<open>The store: \<open>_load_token\<close> and \<open>_save_token\<close>\<close>

text \<open>
  \<open>_load_token\<close>: \<open>FileNotFoundError\<close> gives \<open>None\<close>, every other exception is
  raised again as a \<open>RuntimeError\<close>.
\<close>

definition saxo_load_token :: "world \<Rightarrow> error + token option" where
  "saxo_load_token w =
     (case files w TOKEN_FILE of
        None \<Rightarrow> Inr None
      | Some f \<Rightarrow> (case content f of
                    Document d \<Rightarrow> Inr (Some d)
                  | Unparsable \<Rightarrow> Inl ReadError))"

definition saxo_save_ops :: "token \<Rightarrow> fs_op list" where
  "saxo_save_ops data =
     [OpenW TMP_FILE, Dump TMP_FILE data, Replace TMP_FILE TOKEN_FILE, Chmod TOKEN_FILE owner_only]"

definition saxo_save_token :: "token \<Rightarrow> world \<Rightarrow> world" where
  "saxo_save_token data w = run_ops (saxo_save_ops data) w"

subsection \<open>\<open>get_valid_token\<close>\<close>

text \<open>
  \<open>if not tok\<close> holds for \<open>None\<close> and for the empty dictionary. A record with no
  \<open>exp\<close> gets one from \<open>expires_in\<close> (0 when that is missing too). The record is
  returned as it is while \<open>now < exp - 30\<close>; otherwise the refresher is called with
  \<open>tok["refresh_token"]\<close> (a \<open>KeyError\<close> when the key is missing), the old refresh token
  is put into a reply that has none, and the result is saved.
\<close>

definition saxo_get_valid_token :: "world \<Rightarrow> (error + token) \<times> world" where
  "saxo_get_valid_token w =
     (case saxo_load_token w of
        Inl e \<Rightarrow> (Inl e, w)
      | Inr None \<Rightarrow> (Inl NotAuthorized, w)
      | Inr (Some tok0) \<Rightarrow>
          if tok0 = empty_token then (Inl NotAuthorized, w)
          else
            let now = clock w;
                e = (case exp tok0 of
                       None \<Rightarrow> now + (case expires_in tok0 of None \<Rightarrow> 0 | Some n \<Rightarrow> n)
                     | Some x \<Rightarrow> x);
                tok = tok0\<lparr>exp := Some e\<rparr>
            in if now < e - 30 then (Inr tok, w)
               else (case refresh_token tok of
                       None \<Rightarrow> (Inl (KeyError ''refresh_token''), w)
                     | Some old \<Rightarrow>
                         (case saxo_refresh_token old 2 1 w of
                            (Inl err, w1) \<Rightarrow> (Inl err, w1)
                          | (Inr refreshed0, w1) \<Rightarrow>
                              let refreshed =
                                    (if refresh_token refreshed0 = None
                                     then refreshed0\<lparr>refresh_token := Some old\<rparr>
                                     else refreshed0)
                              in (Inr refreshed, saxo_save_token refreshed w1))))"

subsection \<open>The dispatcher: \<open>_request\<close>\<close>

text \<open>
  The token is fetched, the parameters (when there are any) are appended to the URL, the
  request is sent. On an \<open>HTTPError\<close> with status 401 and \<open>retry\<close> set, the reply of
  the refresher is saved as it comes and the function calls itself with
  \<open>retry=False\<close>, passing the URL it has just extended and the parameters once more.
  Every other \<open>HTTPError\<close> is raised as a \<open>RuntimeError\<close>; an exception that is not
  an \<open>HTTPError\<close> is not caught.
\<close>

function saxo_request ::
  "meth \<Rightarrow> string \<times> (string \<times> string) list list \<Rightarrow> (string \<times> string) list \<Rightarrow> string option
     \<Rightarrow> bool \<Rightarrow> world \<Rightarrow> (error + string) \<times> world" where
  "saxo_request method url params json_data retry w =
     (case saxo_get_valid_token w of
        (Inl e, w1) \<Rightarrow> (Inl e, w1)
      | (Inr token_obj, w1) \<Rightarrow>
          (case access_token token_obj of
             None \<Rightarrow> (Inl (KeyError ''access_token''), w1)
           | Some token \<Rightarrow>
               let url1 = (if params \<noteq> [] then (fst url, snd url @ [params]) else url);
                   rq = \<lparr>req_method = method, req_url = fst url1, req_queries = snd url1,
                         req_data = json_data, req_bearer = token\<rparr>
               in (case urlopen_api rq w1 of
                     (ApiOk j, w2) \<Rightarrow> (Inr j, w2)
                   | (ApiNetError, w2) \<Rightarrow> (Inl NetworkFailure, w2)
                   | (ApiHttpError code, w2) \<Rightarrow>
                       if code = 401 \<and> retry then
                         (case refresh_token token_obj of
                            None \<Rightarrow> (Inl (KeyError ''refresh_token''), w2)
                          | Some old \<Rightarrow>
                              (case saxo_refresh_token old 2 1 w2 of
                                 (Inl e, w3) \<Rightarrow> (Inl e, w3)
                               | (Inr refreshed, w3) \<Rightarrow>
                                   saxo_request method url1 params json_data False
                                     (saxo_save_token refreshed w3)))
                       else (Inl (HttpFailure code), w2))))"
  by pat_completeness auto
termination
  by (relation "measure (\<lambda>(method, url, params, json_data, retry, w). if retry then 1 else 0)") auto

declare saxo_request.simps [simp del]

text \<open>\<open>get\<close> and \<open>post\<close>, the two entry points.\<close>

definition saxo_get :: "string \<Rightarrow> (string \<times> string) list \<Rightarrow> world \<Rightarrow> (error + string) \<times> world" where
  "saxo_get url params w = saxo_request GET (url, []) params None True w"

definition saxo_post :: "string \<Rightarrow> string option \<Rightarrow> world \<Rightarrow> (error + string) \<times> world" where
  "saxo_post url json_data w = saxo_request POST (url, []) [] json_data True w"



section \<open>QQQ.py\<close>

subsection \<open>The callback listener\<close>

text \<open>
  One GET as the handler sees it: the path and the first \<open>code\<close> and \<open>state\<close> values of
  the query (\<open>params.get(key, [None])[0]\<close>). The server object carries the captured
  code and the event the main thread waits on.
\<close>

record callback =
  cb_path :: string
  cb_code :: "string option"
  cb_state :: "string option"

record listener =
  srv_code :: "string option"
  srv_event :: bool

text \<open>
  \<open>OAuthHandler.do_GET\<close>, with the status it sends. A path other than \<open>/callback\<close> is
  answered 404 and returns. Otherwise the branch taken stores \<open>None\<close> or the code, and
  \<open>self.server.event.set()\<close> follows the \<open>if\<close>/\<open>else\<close>, on both branches.
\<close>

definition qqq_do_GET :: "string \<Rightarrow> callback \<Rightarrow> listener \<Rightarrow> nat \<times> listener" where
  "qqq_do_GET state rq srv =
     (if cb_path rq \<noteq> ''/callback'' then (404, srv)
      else if cb_state rq \<noteq> Some state \<or> cb_code rq = None \<or> cb_code rq = Some []
           then (400, srv\<lparr>srv_code := None, srv_event := True\<rparr>)
           else (200, srv\<lparr>srv_code := cb_code rq, srv_event := True\<rparr>))"

text \<open>
  The wait of \<open>main\<close>: the requests that reach the listener within the 300 seconds are
  served in order until the event is set, at which point the main thread wakes up and
  shuts the server down. The statuses sent are collected.
\<close>

fun qqq_serve :: "string \<Rightarrow> callback list \<Rightarrow> listener \<Rightarrow> nat list \<times> listener" where
  "qqq_serve state [] srv = ([], srv)"
| "qqq_serve state (rq # rqs) srv =
     (let (status, srv1) = qqq_do_GET state rq srv
      in if srv_event srv1 then ([status], srv1)
         else (let (sts, srv2) = qqq_serve state rqs srv1 in (status # sts, srv2)))"

text \<open>
  \<open>if not waited or not httpd.code: sys.exit(1)\<close>: the result is the code handed to the
  exchange, or \<open>None\<close> when the run ends without one.
\<close>

definition qqq_await_code :: "string \<Rightarrow> callback list \<Rightarrow> string option" where
  "qqq_await_code state rqs =
     (let (sts, srv) = qqq_serve state rqs \<lparr>srv_code = None, srv_event = False\<rparr>
      in if \<not> srv_event srv \<or> srv_code srv = None \<or> srv_code srv = Some [] then None
         else srv_code srv)"

text \<open>
  The authorize URL of \<open>main\<close>, kept as the endpoint and the parameters given to
  \<open>urlencode\<close>. \<open>state\<close> is the value that \<open>secrets.token_urlsafe(16)\<close> returned when the
  module was loaded.
\<close>

record auth_url =
  endpoint :: string
  query :: "(string \<times> string) list"

definition qqq_auth_url :: "string \<Rightarrow> auth_url" where
  "qqq_auth_url state =
     \<lparr>endpoint = ''https://sim.logonvalidation.net/authorize'',
      query = [(''response_type'', ''code''),
               (''client_id'', ''4252e068bf8b41b4a41545b73d1ccc6d''),
               (''redirect_uri'', ''http://127.0.0.1:5327/callback''),
               (''scope'', ''openid profile''),
               (''state'', state)]\<rparr>"

subsection \<open>Token functions\<close>


definition qqq_save_ops :: "token \<Rightarrow> fs_op list" where
  "qqq_save_ops data = [OpenW TOKEN_FILE, Dump TOKEN_FILE data]"

definition qqq_save_token :: "token \<Rightarrow> world \<Rightarrow> world" where
  "qqq_save_token data w = run_ops (qqq_save_ops data) w"

definition qqq_load_token :: "world \<Rightarrow> error + token option" where
  "qqq_load_token w =
     (case files w TOKEN_FILE of
        None \<Rightarrow> Inr None
      | Some f \<Rightarrow> (case content f of
                    Document d \<Rightarrow> Inr (Some d)
                  | Unparsable \<Rightarrow> Inl DecodeError))"

definition qqq_refresh_token :: "string \<Rightarrow> world \<Rightarrow> (error + token) \<times> world" where
  "qqq_refresh_token refresh_tok w =
     (case urlopen_token refresh_tok (emit (Refresher refresh_tok) w) of
        (Body d, w1) \<Rightarrow>
          (Inr (d\<lparr>exp := Some (clock w1 + (case expires_in d of None \<Rightarrow> 0 | Some n \<Rightarrow> n))\<rparr>), w1)
      | (BadBody, w1) \<Rightarrow> (Inl DecodeError, w1)
      | (HttpError c, w1) \<Rightarrow> (Inl (HttpFailure c), w1)
      | (NetError, w1) \<Rightarrow> (Inl NetworkFailure, w1))"

definition qqq_get_valid_token :: "world \<Rightarrow> (error + token) \<times> world" where
  "qqq_get_valid_token w =
     (case qqq_load_token w of
        Inl e \<Rightarrow> (Inl e, w)
      | Inr None \<Rightarrow> (Inl NotAuthorized, w)
      | Inr (Some tok) \<Rightarrow>
          if tok = empty_token then (Inl NotAuthorized, w)
          else if clock w < (case exp tok of None \<Rightarrow> 0 | Some x \<Rightarrow> x) - 30 then (Inr tok, w)
          else (case refresh_token tok of
                  None \<Rightarrow> (Inl (KeyError ''refresh_token''), w)
                | Some old \<Rightarrow>
                    (case qqq_refresh_token old w of
                       (Inl err, w1) \<Rightarrow> (Inl err, w1)
                     | (Inr refreshed0, w1) \<Rightarrow>
                         let refreshed =
                               (if refresh_token refreshed0 = None
                                then refreshed0\<lparr>refresh_token := Some old\<rparr>
                                else refreshed0)
                         in (Inr refreshed, qqq_save_token refreshed w1))))"


section \<open>bot-token-dennik.py\<close>

text \<open>
  \<open>save_token\<close> writes the file in place (\<open>write_text\<close>). \<open>load_token\<close> returns the
  empty dictionary for a missing file and, with a warning, for one that does not parse.
\<close>

definition bot_save_ops :: "token \<Rightarrow> fs_op list" where
  "bot_save_ops data = [OpenW TOKEN_FILE, Dump TOKEN_FILE data]"

definition bot_save_token :: "token \<Rightarrow> world \<Rightarrow> world" where
  "bot_save_token data w = run_ops (bot_save_ops data) w"

definition bot_load_token :: "world \<Rightarrow> token \<times> world" where
  "bot_load_token w =
     (case files w TOKEN_FILE of
        None \<Rightarrow> (empty_token, w)
      | Some f \<Rightarrow> (case content f of
                    Document d \<Rightarrow> (d, w)
                  | Unparsable \<Rightarrow> (empty_token, emit Warning w)))"

text \<open>
  \<open>token_is_valid\<close>: a truthy \<open>expiry_ts\<close> decides; otherwise the \<open>exp\<close> claim of the
  access token does, and a missing or empty access token is invalid.
\<close>

definition token_is_valid :: "token \<Rightarrow> world \<Rightarrow> bool" where
  "token_is_valid token_data w =
     (let now = clock w;
          by_jwt = (case access_token token_data of
                      None \<Rightarrow> False
                    | Some access \<Rightarrow>
                        if access = [] then False
                        else (case jwt_exp w access of
                                None \<Rightarrow> False
                              | Some x \<Rightarrow> x \<noteq> 0 \<and> x > now))
      in case expiry_ts token_data of
           None \<Rightarrow> by_jwt
         | Some ts \<Rightarrow> if ts \<noteq> 0 then ts > now else by_jwt)"

definition invalidate_token :: "world \<Rightarrow> world" where
  "invalidate_token w =
     (case files w TOKEN_FILE of None \<Rightarrow> w | Some f \<Rightarrow> fs_step (Unlink TOKEN_FILE) w)"

text \<open>
  \<open>obtain_new_access(refresh_token=None)\<close>: one POST with \<open>refresh_token or
  REFRESH_TOKEN\<close> (the value of \<open>config.ini\<close>, a parameter here), \<open>raise_for_status\<close>,
  \<open>expiry_ts\<close> added when the reply has \<open>expires_in\<close>, and the reply saved as it is.
\<close>

definition obtain_new_access :: "string \<Rightarrow> string option \<Rightarrow> world \<Rightarrow> (error + token) \<times> world" where
  "obtain_new_access REFRESH_TOKEN refresh_tok w =
     (let used = (case refresh_tok of None \<Rightarrow> REFRESH_TOKEN
                  | Some t \<Rightarrow> if t = [] then REFRESH_TOKEN else t)
      in case urlopen_token used (emit (Refresher used) w) of
           (Body d, w1) \<Rightarrow>
             (let data = (case expires_in d of
                            None \<Rightarrow> d
                          | Some n \<Rightarrow> d\<lparr>expiry_ts := Some (clock w1 + n)\<rparr>)
              in (Inr data, bot_save_token data w1))
         | (BadBody, w1) \<Rightarrow> (Inl DecodeError, w1)
         | (HttpError c, w1) \<Rightarrow> (Inl (HttpFailure c), w1)
         | (NetError, w1) \<Rightarrow> (Inl NetworkFailure, w1))"

text \<open>
  \<open>get_valid_token\<close>: a record that is missing or not valid is replaced by a refresh with
  the configured refresh token; a valid one with less than 300 seconds left by a refresh
  with its own.
\<close>

definition bot_get_valid_token :: "string \<Rightarrow> world \<Rightarrow> (error + string) \<times> world" where
  "bot_get_valid_token REFRESH_TOKEN w =
     (let (token_data, w0) = bot_load_token w;
          (r, w1) =
            (if \<not> token_is_valid token_data w0 then obtain_new_access REFRESH_TOKEN None w0
             else if (case expiry_ts token_data of None \<Rightarrow> 0 | Some ts \<Rightarrow> ts) - clock w0 < 300
                  then obtain_new_access REFRESH_TOKEN (refresh_token token_data) w0
                  else (Inr token_data, w0))
      in case r of
           Inl e \<Rightarrow> (Inl e, w1)
         | Inr td \<Rightarrow> (case access_token td of
                        None \<Rightarrow> (Inl NoAccessToken, w1)
                      | Some access \<Rightarrow>
                          if access = [] then (Inl NoAccessToken, w1) else (Inr access, w1)))"

text \<open>
  \<open>example_api_call\<close>: one GET; on status 401 a warning, the token file removed, a
  fresh token fetched, and one more GET; then \<open>raise_for_status\<close>.
\<close>

definition bot_api_get :: "string \<Rightarrow> string \<Rightarrow> world \<Rightarrow> api_reply \<times> world" where
  "bot_api_get url token w =
     urlopen_api \<lparr>req_method = GET, req_url = url, req_queries = [], req_data = None,
                  req_bearer = token\<rparr> w"

definition raise_for_status :: "api_reply \<Rightarrow> error + string" where
  "raise_for_status r =
     (case r of ApiOk j \<Rightarrow> Inr j
      | ApiHttpError c \<Rightarrow> Inl (HttpFailure c)
      | ApiNetError \<Rightarrow> Inl NetworkFailure)"

definition example_api_call :: "string \<Rightarrow> string \<Rightarrow> world \<Rightarrow> (error + string) \<times> world" where
  "example_api_call REFRESH_TOKEN url w =
     (case bot_get_valid_token REFRESH_TOKEN w of
        (Inl e, w1) \<Rightarrow> (Inl e, w1)
      | (Inr token, w1) \<Rightarrow>
          (case bot_api_get url token w1 of
             (ApiNetError, w2) \<Rightarrow> (Inl NetworkFailure, w2)
           | (ApiHttpError c, w2) \<Rightarrow>
               if c = 401 then
                 (case bot_get_valid_token REFRESH_TOKEN (invalidate_token (emit Warning w2)) of
                    (Inl e, w3) \<Rightarrow> (Inl e, w3)
                  | (Inr token2, w3) \<Rightarrow>
                      (case bot_api_get url token2 w3 of (r2, w4) \<Rightarrow> (raise_for_status r2, w4)))
               else (Inl (HttpFailure c), w2)
           | (ApiOk j, w2) \<Rightarrow> (Inr j, w2)))"


section \<open>get\_saxo\_token.py and auth\_code\_flow.py\<close>

text \<open>
  \<open>build_auth_url\<close> of the two scripts; the client id and the redirect URI come from the
  environment.
\<close>

definition gst_build_auth_url :: "string \<Rightarrow> string \<Rightarrow> auth_url" where
  "gst_build_auth_url CLIENT_ID REDIRECT_URI =
     \<lparr>endpoint = ''https://sim.logonvalidation.net/authorize'',
      query = [(''response_type'', ''code''),
               (''client_id'', CLIENT_ID),
               (''redirect_uri'', REDIRECT_URI),
               (''scope'', ''openid profile email trading''),
               (''state'', ''saxo_demo_state_123'')]\<rparr>"

definition acf_build_auth_url :: "string \<Rightarrow> string \<Rightarrow> auth_url" where
  "acf_build_auth_url CLIENT_ID REDIRECT_URI =
     \<lparr>endpoint = ''https://sim.logonvalidation.net/authorize'',
      query = [(''response_type'', ''code''),
               (''client_id'', CLIENT_ID),
               (''redirect_uri'', REDIRECT_URI),
               (''scope'', ''openid profile email trading''),
               (''state'', ''test_state_123'')]\<rparr>"

text \<open>
  \<open>CallbackHandler.do_GET\<close> looks at \<open>code\<close> only: neither the path nor \<open>state\<close> is
  read. \<open>start_local_server\<close> handles requests while no code is stored; when the
  requests run out it is still blocked in \<open>handle_request\<close>, which is the result
  \<open>None\<close>.
\<close>

definition gst_do_GET :: "callback \<Rightarrow> string option \<Rightarrow> nat \<times> string option" where
  "gst_do_GET rq code =
     (case cb_code rq of Some c \<Rightarrow> (200, Some c) | None \<Rightarrow> (400, code))"

fun start_local_server :: "callback list \<Rightarrow> string option" where
  "start_local_server [] = None"
| "start_local_server (rq # rqs) =
     (case snd (gst_do_GET rq None) of
        None \<Rightarrow> start_local_server rqs
      | Some c \<Rightarrow> Some c)"


section \<open>Words for the statements\<close>


definition stray :: callback where
  "stray = \<lparr>cb_path = ''/callback'', cb_code = Some ''x'', cb_state = Some ''other''\<rparr>"

definition genuine :: callback where
  "genuine = \<lparr>cb_path = ''/callback'', cb_code = Some ''c0'', cb_state = Some ''S''\<rparr>"

text \<open>A world to run the code in: the clock at 1000, no file, servers that do not answer.\<close>

definition quiet :: world where
  "quiet = \<lparr>clock = 1000, files = (\<lambda>p. None), create_mode = 420,
             token_endpoint = [], api_endpoint = [], jwt_exp = (\<lambda>a. None),
             trace = []\<rparr>"

text \<open>
  A stored record that is good until 5000, a reply of the token endpoint that carries no
  refresh token, one that carries neither a refresh token nor a lifetime, and a world
  whose token file holds a given record.
\<close>

definition tok_a :: token where
  "tok_a = \<lparr>access_token = Some ''a0'', refresh_token = Some ''r0'', expires_in = Some 1200,
            exp = Some 5000, expiry_ts = None, other = [(''token_type'', ''Bearer'')]\<rparr>"

definition reply_b :: token where
  "reply_b = \<lparr>access_token = Some ''a1'', refresh_token = None, expires_in = Some 1200,
              exp = None, expiry_ts = None, other = [(''token_type'', ''Bearer'')]\<rparr>"

definition reply_c :: token where
  "reply_c = \<lparr>access_token = Some ''a2'', refresh_token = None, expires_in = None,
              exp = None, expiry_ts = None, other = []\<rparr>"

definition holding :: "token \<Rightarrow> world \<Rightarrow> world" where
  "holding t w = w\<lparr>files := (files w)(TOKEN_FILE \<mapsto> \<lparr>content = Document t, mode = 420\<rparr>)\<rparr>"



section \<open>Properties of the refresher\<close>


lemma attempts_range: "[0..<2 + 1] = [0, 1, 2::nat]"
  by (simp add: upt_rec)

lemma saxo_refresh_token_unfold:
  "saxo_refresh_token rt 2 1 w = refresh_attempts [0, 1, 2] rt 2 1 (emit (Refresher rt) w)"
  by (simp only: saxo_refresh_token_def attempts_range)


lemma attempt_transient:
  assumes "transient r" and "token_endpoint w = r # rs"
  shows "refresh_attempts (a # rest) rt retries b w =
           refresh_attempts rest rt retries b
             (let w1 = emit (TokenPost rt) (w\<lparr>token_endpoint := rs\<rparr>)
              in if a < retries then sleep (b * 2 ^ a) w1 else w1)"
  using assms by (cases r) (simp_all add: refresh_attempts.simps urlopen_token_def Let_def)

lemma attempt_rejected:
  assumes "400 \<le> c" and "c < 500" and "token_endpoint w = HttpError c # rs"
  shows "refresh_attempts (a # rest) rt retries b w =
           (Inl (AuthRejected c), emit (TokenPost rt) (w\<lparr>token_endpoint := rs\<rparr>))"
  using assms by (simp add: refresh_attempts.simps urlopen_token_def Let_def)

lemma token_posts_emit [simp]:
  "token_posts (emit e w) = token_posts w + (case e of TokenPost _ \<Rightarrow> 1 | _ \<Rightarrow> 0)"
  by (cases e) (simp_all add: token_posts_def emit_def)

lemma token_posts_sleep [simp]: "token_posts (sleep d w) = token_posts w"
  by (simp add: sleep_def token_posts_def emit_def)

lemma token_posts_upd [simp]:
  "token_posts (w\<lparr>token_endpoint := x\<rparr>) = token_posts w"
  "token_posts (w\<lparr>clock := y\<rparr>) = token_posts w"
  by (simp_all add: token_posts_def)

lemma refresh_attempts_posts:
  "token_posts (snd (refresh_attempts as rt retries b w)) \<le> token_posts w + length as"
proof (induction as arbitrary: w)
  case Nil
  then show ?case by (simp add: refresh_attempts.simps)
next
  case (Cons a as)
  show ?case
  proof (cases "token_endpoint w")
    case Nil
    then show ?thesis
      using Cons.IH[of "if a < retries then sleep (b * 2 ^ a) (emit (TokenPost rt) w) else emit (TokenPost rt) w"]
      by (auto simp add: refresh_attempts.simps urlopen_token_def Let_def)
  next
    case (Cons r rs)
    then show ?thesis
      using Cons.IH[of "if a < retries then sleep (b * 2 ^ a) (emit (TokenPost rt) (w\<lparr>token_endpoint := rs\<rparr>)) else emit (TokenPost rt) (w\<lparr>token_endpoint := rs\<rparr>)"]
      by (cases r) (auto simp add: refresh_attempts.simps urlopen_token_def Let_def)
  qed
qed


lemma rejected_at_once:
  assumes "400 \<le> c" and "c < 500" and "token_endpoint w = HttpError c # rest"
  shows "saxo_refresh_token rt 2 1 w =
           (Inl (AuthRejected c),
            w\<lparr>token_endpoint := rest, trace := trace w @ [Refresher rt, TokenPost rt]\<rparr>)"
proof -
  have "token_endpoint (emit (Refresher rt) w) = HttpError c # rest"
    using assms(3) by (simp add: emit_def)
  from attempt_rejected [OF assms(1) assms(2) this, of 0 "[1, 2]" rt 2 1]
  show ?thesis
    unfolding saxo_refresh_token_unfold
    by (simp add: emit_def)
qed

lemma exhausted_after_three:
  assumes "transient r1" and "transient r2" and "transient r3"
    and "token_endpoint w = r1 # r2 # r3 # rest"
  shows "saxo_refresh_token rt 2 1 w =
           (Inl TransientFailure,
            w\<lparr>clock := clock w + 3, token_endpoint := rest,
              trace := trace w @ [Refresher rt, TokenPost rt, Sleep 1, TokenPost rt, Sleep 2,
                                  TokenPost rt]\<rparr>)"
proof -
  let ?w0 = "emit (Refresher rt) w"
  let ?w1 = "sleep 1 (emit (TokenPost rt) (?w0\<lparr>token_endpoint := r2 # r3 # rest\<rparr>))"
  let ?w2 = "sleep 2 (emit (TokenPost rt) (?w1\<lparr>token_endpoint := r3 # rest\<rparr>))"
  let ?w3 = "emit (TokenPost rt) (?w2\<lparr>token_endpoint := rest\<rparr>)"
  have e0: "token_endpoint ?w0 = r1 # r2 # r3 # rest"
    using assms(4) by (simp add: emit_def)
  have e1: "token_endpoint ?w1 = r2 # r3 # rest"
    by (simp add: emit_def sleep_def)
  have e2: "token_endpoint ?w2 = r3 # rest"
    by (simp add: emit_def sleep_def)
  have s1: "refresh_attempts [0, 1, 2] rt 2 1 ?w0 = refresh_attempts [1, 2] rt 2 1 ?w1"
    using attempt_transient [OF assms(1) e0, of 0 "[1, 2]" rt 2 1] by (simp add: Let_def)
  have s2: "refresh_attempts [1, 2] rt 2 1 ?w1 = refresh_attempts [2] rt 2 1 ?w2"
    using attempt_transient [OF assms(2) e1, of 1 "[2]" rt 2 1] by (simp add: Let_def)
  have s3: "refresh_attempts [2] rt 2 1 ?w2 = refresh_attempts [] rt 2 1 ?w3"
    using attempt_transient [OF assms(3) e2, of 2 "[]" rt 2 1] by (simp add: Let_def)
  have "saxo_refresh_token rt 2 1 w = (Inl TransientFailure, ?w3)"
    by (simp only: saxo_refresh_token_unfold s1 s2 s3 refresh_attempts.simps(1))
  moreover have "?w3 = w\<lparr>clock := clock w + 3, token_endpoint := rest,
              trace := trace w @ [Refresher rt, TokenPost rt, Sleep 1, TokenPost rt, Sleep 2,
                                  TokenPost rt]\<rparr>"
    by (simp add: emit_def sleep_def)
  ultimately show ?thesis by simp
qed

lemma rejected_later:
  assumes "length ts \<le> 2" and "list_all transient ts" and "400 \<le> c" and "c < 500"
    and "token_endpoint w = ts @ HttpError c # rest"
  shows "fst (saxo_refresh_token rt 2 1 w) = Inl (AuthRejected c) \<and>
         token_posts (snd (saxo_refresh_token rt 2 1 w)) = token_posts w + length ts + 1"
proof -
  let ?w0 = "emit (Refresher rt) w"
  consider "ts = []" | a where "ts = [a]" | a b where "ts = [a, b]"
    using assms(1) by (cases ts; cases "tl ts"; cases "tl (tl ts)") auto
  then show ?thesis
  proof cases
    case 1
    then show ?thesis
      using assms rejected_at_once [of c w rest rt]
      by (simp add: token_posts_def)
  next
    case 2
    let ?w1 = "sleep 1 (emit (TokenPost rt) (?w0\<lparr>token_endpoint := HttpError c # rest\<rparr>))"
    have ta: "transient a" using assms(2) 2 by simp
    have e0: "token_endpoint ?w0 = a # HttpError c # rest"
      using assms(5) 2 by (simp add: emit_def)
    have e1: "token_endpoint ?w1 = HttpError c # rest"
      by (simp add: emit_def sleep_def)
    have s1: "refresh_attempts [0, 1, 2] rt 2 1 ?w0 = refresh_attempts [1, 2] rt 2 1 ?w1"
      using attempt_transient [OF ta e0, of 0 "[1, 2]" rt 2 1] by (simp add: Let_def)
    have s2: "refresh_attempts [1, 2] rt 2 1 ?w1 =
                (Inl (AuthRejected c), emit (TokenPost rt) (?w1\<lparr>token_endpoint := rest\<rparr>))"
      by (rule attempt_rejected [OF assms(3) assms(4) e1])
    show ?thesis
      unfolding saxo_refresh_token_unfold s1 s2
      using 2 by (simp add: sleep_def)
  next
    case 3
    let ?w1 = "sleep 1 (emit (TokenPost rt) (?w0\<lparr>token_endpoint := b # HttpError c # rest\<rparr>))"
    let ?w2 = "sleep 2 (emit (TokenPost rt) (?w1\<lparr>token_endpoint := HttpError c # rest\<rparr>))"
    have ta: "transient a" and tb: "transient b" using assms(2) 3 by simp_all
    have e0: "token_endpoint ?w0 = a # b # HttpError c # rest"
      using assms(5) 3 by (simp add: emit_def)
    have e1: "token_endpoint ?w1 = b # HttpError c # rest"
      by (simp add: emit_def sleep_def)
    have e2: "token_endpoint ?w2 = HttpError c # rest"
      by (simp add: emit_def sleep_def)
    have s1: "refresh_attempts [0, 1, 2] rt 2 1 ?w0 = refresh_attempts [1, 2] rt 2 1 ?w1"
      using attempt_transient [OF ta e0, of 0 "[1, 2]" rt 2 1] by (simp add: Let_def)
    have s2: "refresh_attempts [1, 2] rt 2 1 ?w1 = refresh_attempts [2] rt 2 1 ?w2"
      using attempt_transient [OF tb e1, of 1 "[2]" rt 2 1] by (simp add: Let_def)
    have s3: "refresh_attempts [2] rt 2 1 ?w2 =
                (Inl (AuthRejected c), emit (TokenPost rt) (?w2\<lparr>token_endpoint := rest\<rparr>))"
      by (rule attempt_rejected [OF assms(3) assms(4) e2])
    show ?thesis
      unfolding saxo_refresh_token_unfold s1 s2 s3
      using 3 by (simp add: sleep_def)
  qed
qed

lemma never_a_fourth:
  "token_posts (snd (saxo_refresh_token rt 2 1 w)) \<le> token_posts w + 3"
  unfolding saxo_refresh_token_unfold
  using refresh_attempts_posts [of "[0, 1, 2]" rt 2 1 "emit (Refresher rt) w"]
  by (simp)


text \<open>
  C1. The refresher called as the dispatcher calls it (\<open>retries = 2\<close>,
  \<open>backoff = 1\<close>): a 4xx answer to the first POST ends the call with
  \<open>AuthRejected\<close> after that one POST and no sleep; a 4xx answer after one or two
  transient failures ends it there as well; three transient failures (network error or
  5xx) in a row end it with \<open>TransientFailure\<close> after exactly three POSTs with sleeps
  of 1 and 2 seconds between them; and no call ever makes a fourth POST.
\<close>

theorem refresher_retry_policy:
  "(\<forall>c rest. 400 \<le> c \<and> c < 500 \<and> token_endpoint w = HttpError c # rest \<longrightarrow>
      saxo_refresh_token rt 2 1 w =
        (Inl (AuthRejected c),
         w\<lparr>token_endpoint := rest, trace := trace w @ [Refresher rt, TokenPost rt]\<rparr>))
   \<and> (\<forall>ts c rest. length ts \<le> 2 \<and> list_all transient ts \<and> 400 \<le> c \<and> c < 500 \<and>
          token_endpoint w = ts @ HttpError c # rest \<longrightarrow>
      fst (saxo_refresh_token rt 2 1 w) = Inl (AuthRejected c) \<and>
      token_posts (snd (saxo_refresh_token rt 2 1 w)) = token_posts w + length ts + 1)
   \<and> (\<forall>r1 r2 r3 rest. transient r1 \<and> transient r2 \<and> transient r3 \<and>
          token_endpoint w = r1 # r2 # r3 # rest \<longrightarrow>
      saxo_refresh_token rt 2 1 w =
        (Inl TransientFailure,
         w\<lparr>clock := clock w + 3, token_endpoint := rest,
           trace := trace w @ [Refresher rt, TokenPost rt, Sleep 1, TokenPost rt, Sleep 2,
                               TokenPost rt]\<rparr>))
   \<and> token_posts (snd (saxo_refresh_token rt 2 1 w)) \<le> token_posts w + 3"
proof (intro conjI allI impI)
  fix c rest
  assume "400 \<le> c \<and> c < 500 \<and> token_endpoint w = HttpError c # rest"
  then show "saxo_refresh_token rt 2 1 w =
        (Inl (AuthRejected c),
         w\<lparr>token_endpoint := rest, trace := trace w @ [Refresher rt, TokenPost rt]\<rparr>)"
    using rejected_at_once [of c w rest rt] by blast
next
  fix ts c rest
  assume h: "length ts \<le> 2 \<and> list_all transient ts \<and> 400 \<le> c \<and> c < 500 \<and>
          token_endpoint w = ts @ HttpError c # rest"
  from h show "fst (saxo_refresh_token rt 2 1 w) = Inl (AuthRejected c)"
    using rejected_later [of ts c w rest rt] by blast
  from h show "token_posts (snd (saxo_refresh_token rt 2 1 w)) = token_posts w + length ts + 1"
    using rejected_later [of ts c w rest rt] by blast
next
  fix r1 r2 r3 rest
  assume "transient r1 \<and> transient r2 \<and> transient r3 \<and>
          token_endpoint w = r1 # r2 # r3 # rest"
  then show "saxo_refresh_token rt 2 1 w =
        (Inl TransientFailure,
         w\<lparr>clock := clock w + 3, token_endpoint := rest,
           trace := trace w @ [Refresher rt, TokenPost rt, Sleep 1, TokenPost rt, Sleep 2,
                               TokenPost rt]\<rparr>)"
    using exhausted_after_three [of r1 r2 r3 w rest rt] by blast
next
  show "token_posts (snd (saxo_refresh_token rt 2 1 w)) \<le> token_posts w + 3"
    by (rule never_a_fourth)
qed

theorem refresher_retry_policy_witness:
  "saxo_refresh_token ''r0'' 2 1 (quiet\<lparr>token_endpoint := [HttpError 400]\<rparr>) =
     (Inl (AuthRejected 400),
      quiet\<lparr>token_endpoint := [], trace := [Refresher ''r0'', TokenPost ''r0'']\<rparr>)
   \<and> fst (saxo_refresh_token ''r0'' 2 1
            (quiet\<lparr>token_endpoint := [NetError, HttpError 401]\<rparr>)) = Inl (AuthRejected 401)
   \<and> saxo_refresh_token ''r0'' 2 1
         (quiet\<lparr>token_endpoint := [HttpError 500, NetError, HttpError 503, HttpError 500]\<rparr>) =
     (Inl TransientFailure,
      quiet\<lparr>clock := 1003, token_endpoint := [HttpError 500],
        trace := [Refresher ''r0'', TokenPost ''r0'', Sleep 1, TokenPost ''r0'', Sleep 2,
                  TokenPost ''r0'']\<rparr>)"
proof (intro conjI)
  let ?w = "quiet\<lparr>token_endpoint := [HttpError 400]\<rparr>"
  have "400 \<le> (400::nat) \<and> (400::nat) < 500 \<and> token_endpoint ?w = HttpError 400 # []"
    by simp
  with refresher_retry_policy [of ?w "''r0''"]
  have "saxo_refresh_token ''r0'' 2 1 ?w =
        (Inl (AuthRejected 400),
         ?w\<lparr>token_endpoint := [], trace := trace ?w @ [Refresher ''r0'', TokenPost ''r0'']\<rparr>)"
    by blast
  then show "saxo_refresh_token ''r0'' 2 1 ?w =
     (Inl (AuthRejected 400),
      quiet\<lparr>token_endpoint := [], trace := [Refresher ''r0'', TokenPost ''r0'']\<rparr>)"
    by (simp add: quiet_def)
next
  let ?w = "quiet\<lparr>token_endpoint := [NetError, HttpError 401]\<rparr>"
  have "length [NetError] \<le> 2 \<and> list_all transient [NetError] \<and> 400 \<le> (401::nat) \<and>
        (401::nat) < 500 \<and> token_endpoint ?w = [NetError] @ HttpError 401 # []"
    by simp
  with refresher_retry_policy [of ?w "''r0''"]
  show "fst (saxo_refresh_token ''r0'' 2 1 ?w) = Inl (AuthRejected 401)"
    by blast
next
  let ?w = "quiet\<lparr>token_endpoint := [HttpError 500, NetError, HttpError 503, HttpError 500]\<rparr>"
  have "transient (HttpError 500) \<and> transient NetError \<and> transient (HttpError 503) \<and>
        token_endpoint ?w = HttpError 500 # NetError # HttpError 503 # [HttpError 500]"
    by simp
  with refresher_retry_policy [of ?w "''r0''"]
  have "saxo_refresh_token ''r0'' 2 1 ?w =
        (Inl TransientFailure,
         ?w\<lparr>clock := clock ?w + 3, token_endpoint := [HttpError 500],
           trace := trace ?w @ [Refresher ''r0'', TokenPost ''r0'', Sleep 1, TokenPost ''r0'',
                               Sleep 2, TokenPost ''r0'']\<rparr>)"
    by blast
  then show "saxo_refresh_token ''r0'' 2 1 ?w =
     (Inl TransientFailure,
      quiet\<lparr>clock := 1003, token_endpoint := [HttpError 500],
        trace := [Refresher ''r0'', TokenPost ''r0'', Sleep 1, TokenPost ''r0'', Sleep 2,
                  TokenPost ''r0'']\<rparr>)"
    by (simp add: quiet_def)
qed

section \<open>What each operation leaves untouched\<close>

lemma fs_step_frame [simp]:
  "trace (fs_step op w) = trace w"
  "clock (fs_step op w) = clock w"
  "token_endpoint (fs_step op w) = token_endpoint w"
  "api_endpoint (fs_step op w) = api_endpoint w"
  "jwt_exp (fs_step op w) = jwt_exp w"
  "create_mode (fs_step op w) = create_mode w"
  by (cases op; simp)+

lemma run_ops_frame [simp]:
  "trace (run_ops ops w) = trace w"
  "clock (run_ops ops w) = clock w"
  "token_endpoint (run_ops ops w) = token_endpoint w"
  "api_endpoint (run_ops ops w) = api_endpoint w"
  "jwt_exp (run_ops ops w) = jwt_exp w"
  "create_mode (run_ops ops w) = create_mode w"
  unfolding run_ops_def by (induction ops arbitrary: w; simp)+

lemma emit_frame [simp]:
  "trace (emit e w) = trace w @ [e]"
  "clock (emit e w) = clock w"
  "files (emit e w) = files w"
  "token_endpoint (emit e w) = token_endpoint w"
  "api_endpoint (emit e w) = api_endpoint w"
  "jwt_exp (emit e w) = jwt_exp w"
  by (simp_all add: emit_def)

lemma sleep_frame [simp]:
  "trace (sleep d w) = trace w @ [Sleep d]"
  "clock (sleep d w) = clock w + int d"
  "files (sleep d w) = files w"
  "token_endpoint (sleep d w) = token_endpoint w"
  "api_endpoint (sleep d w) = api_endpoint w"
  "jwt_exp (sleep d w) = jwt_exp w"
  by (simp_all add: sleep_def)

lemma urlopen_token_frame [simp]:
  "trace (snd (urlopen_token rt w)) = trace w @ [TokenPost rt]"
  "clock (snd (urlopen_token rt w)) = clock w"
  "files (snd (urlopen_token rt w)) = files w"
  "api_endpoint (snd (urlopen_token rt w)) = api_endpoint w"
  "jwt_exp (snd (urlopen_token rt w)) = jwt_exp w"
  by (simp_all add: urlopen_token_def split: list.splits)





lemma saxo_save_token_frame [simp]:
  "trace (saxo_save_token d w) = trace w"
  "clock (saxo_save_token d w) = clock w"
  "token_endpoint (saxo_save_token d w) = token_endpoint w"
  "api_endpoint (saxo_save_token d w) = api_endpoint w"
  "api_requests (saxo_save_token d w) = api_requests w"
  "refresher_calls (saxo_save_token d w) = refresher_calls w"
  by (simp_all add: saxo_save_token_def api_requests_def refresher_calls_def)

lemma stored_saxo_save_token [simp]: "stored (saxo_save_token d w) = Some d"
  by (simp add: saxo_save_token_def saxo_save_ops_def run_ops_def stored_def)


section \<open>Obtaining a valid token\<close>

lemma stored_Some:
  "stored w = Some t \<longleftrightarrow> (\<exists>f. files w TOKEN_FILE = Some f \<and> content f = Document t)"
  by (auto simp: stored_def split: option.splits content.splits)

lemma saxo_load_token_stored: "stored w = Some t \<Longrightarrow> saxo_load_token w = Inr (Some t)"
  by (auto simp: stored_Some saxo_load_token_def)


lemma not_empty_token:
  "exp t = Some e \<Longrightarrow> t \<noteq> empty_token"
  "refresh_token t = Some r \<Longrightarrow> t \<noteq> empty_token"
  by (auto simp: empty_token_def)


text \<open>The branch taken when the check \<open>now < exp - 30\<close> fails.\<close>

lemma saxo_expired_unfold:
  assumes "stored w = Some t" and "t \<noteq> empty_token"
    and "(case exp t of None \<Rightarrow> clock w + (case expires_in t of None \<Rightarrow> 0 | Some n \<Rightarrow> n)
          | Some x \<Rightarrow> x) \<le> clock w + 30"
  shows "saxo_get_valid_token w =
           (case refresh_token t of
              None \<Rightarrow> (Inl (KeyError ''refresh_token''), w)
            | Some old \<Rightarrow>
                (case saxo_refresh_token old 2 1 w of
                   (Inl err, w1) \<Rightarrow> (Inl err, w1)
                 | (Inr refreshed0, w1) \<Rightarrow>
                     let refreshed =
                           (if refresh_token refreshed0 = None
                            then refreshed0\<lparr>refresh_token := Some old\<rparr>
                            else refreshed0)
                     in (Inr refreshed, saxo_save_token refreshed w1)))"
  using assms
  by (simp add: saxo_get_valid_token_def saxo_load_token_stored Let_def
      split: option.splits)






section \<open>What a refresh does to the stored refresh token\<close>

lemma upt3: "[0..<3] = [0, 1, 2::nat]"
  by (simp add: upt_rec)

lemmas run_simps =
  saxo_request.simps saxo_get_def saxo_post_def saxo_get_valid_token_def saxo_load_token_def
  saxo_refresh_token_def refresh_attempts.simps upt3 saxo_save_token_def saxo_save_ops_def
  run_ops_def urlopen_token_def urlopen_api_def emit_def sleep_def holding_def quiet_def
  tok_a_def reply_b_def reply_c_def empty_token_def stored_def owner_only_def Let_def


text \<open>
  C2. The world: the stored record \<open>tok_a\<close> (refresh token \<open>r0\<close>, good until 5000), the
  clock at 1000, an API that answers 401 and then 200, a token endpoint whose reply has
  no \<open>refresh_token\<close>. The call succeeds, and the record in the store afterwards is the
  reply as it came: it has no refresh token, the stored \<open>r0\<close> is gone.
\<close>

theorem refresh_after_401_drops_refresh_token:
  "fst (saxo_get ''u'' []
     (holding tok_a (quiet\<lparr>token_endpoint := [Body reply_b],
                          api_endpoint := [ApiHttpError 401, ApiOk ''ok'']\<rparr>))) = Inr ''ok''
   \<and> stored (snd (saxo_get ''u'' []
     (holding tok_a (quiet\<lparr>token_endpoint := [Body reply_b],
                          api_endpoint := [ApiHttpError 401, ApiOk ''ok'']\<rparr>)))) =
       Some (reply_b\<lparr>exp := Some 2200\<rparr>)
   \<and> refresh_token tok_a = Some ''r0''
   \<and> refresh_token (reply_b\<lparr>exp := Some 2200\<rparr>) = None"
  by (simp add: run_simps)

text \<open>
  The proactive refresh of \<open>get_valid_token\<close> does what the claim says: the saved
  record carries the reply's refresh token when it has one and the old one otherwise.
\<close>

lemma proactive_refresh_keeps_refresh_token:
  assumes "stored w = Some t" and "exp t = Some e" and "e \<le> clock w + 30"
    and "refresh_token t = Some old" and "token_endpoint w = Body d # rest"
  shows "\<exists>tok w1. saxo_get_valid_token w = (Inr tok, w1) \<and> stored w1 = Some tok \<and>
           refresh_token tok = (case refresh_token d of None \<Rightarrow> Some old | Some new \<Rightarrow> Some new)"
proof -
  have c: "(case exp t of None \<Rightarrow> clock w + (case expires_in t of None \<Rightarrow> 0 | Some n \<Rightarrow> n)
          | Some x \<Rightarrow> x) \<le> clock w + 30"
    using assms(2,3) by simp
  have r: "saxo_refresh_token old 2 1 w =
             (Inr (d\<lparr>exp := Some (clock w + (case expires_in d of None \<Rightarrow> 0 | Some n \<Rightarrow> n))\<rparr>),
              emit (TokenPost old) (emit (Refresher old) w\<lparr>token_endpoint := rest\<rparr>))"
    unfolding saxo_refresh_token_unfold
    using assms(5) by (simp add: refresh_attempts.simps urlopen_token_def Let_def)
  have "saxo_get_valid_token w =
          (let refreshed0 = d\<lparr>exp := Some (clock w + (case expires_in d of None \<Rightarrow> 0 | Some n \<Rightarrow> n))\<rparr>;
               refreshed = (if refresh_token refreshed0 = None
                            then refreshed0\<lparr>refresh_token := Some old\<rparr> else refreshed0)
           in (Inr refreshed,
               saxo_save_token refreshed
                 (emit (TokenPost old) (emit (Refresher old) w\<lparr>token_endpoint := rest\<rparr>))))"
    using saxo_expired_unfold [OF assms(1) not_empty_token(2) [OF assms(4)] c] assms(4)
    by (simp add: r Let_def del: One_nat_def)
  then show ?thesis
    by (cases "refresh_token d") (simp_all add: Let_def)
qed

lemma qqq_refresh_keeps_refresh_token:
  assumes "stored w = Some t" and "exp t = Some e" and "e \<le> clock w + 30"
    and "refresh_token t = Some old" and "token_endpoint w = Body d # rest"
  shows "\<exists>tok w1. qqq_get_valid_token w = (Inr tok, w1) \<and> stored w1 = Some tok \<and>
           refresh_token tok = (case refresh_token d of None \<Rightarrow> Some old | Some new \<Rightarrow> Some new)"
proof -
  obtain f where f: "files w TOKEN_FILE = Some f" "content f = Document t"
    using assms(1) by (auto simp: stored_Some)
  show ?thesis
    using assms f not_empty_token(2) [OF assms(4)]
    by (cases "refresh_token d")
       (simp_all add: qqq_get_valid_token_def qqq_load_token_def qqq_refresh_token_def
          urlopen_token_def qqq_save_token_def qqq_save_ops_def run_ops_def stored_def Let_def)
qed


section \<open>A token file that does not parse\<close>






section \<open>An empty store\<close>

lemma saxo_empty_store:
  assumes "files w TOKEN_FILE = None \<or> stored w = Some empty_token"
  shows "saxo_get_valid_token w = (Inl NotAuthorized, w)"
  using assms
  by (auto simp: saxo_get_valid_token_def saxo_load_token_def stored_Some)

lemma qqq_empty_store:
  assumes "files w TOKEN_FILE = None \<or> stored w = Some empty_token"
  shows "qqq_get_valid_token w = (Inl NotAuthorized, w)"
  using assms
  by (auto simp: qqq_get_valid_token_def qqq_load_token_def stored_Some)

lemma bot_empty_store:
  assumes "files w TOKEN_FILE = None"
  shows "trace (snd (bot_get_valid_token cfg w)) = trace w @ [Refresher cfg, TokenPost cfg]"
    and "fst (bot_get_valid_token cfg w) \<noteq> Inl NotAuthorized"
proof -
  have l: "bot_load_token w = (empty_token, w)"
    using assms by (simp add: bot_load_token_def)
  have v: "\<not> token_is_valid empty_token w"
    by (simp add: token_is_valid_def empty_token_def)
  obtain r w1 where u: "urlopen_token cfg (emit (Refresher cfg) w) = (r, w1)"
    by (cases "urlopen_token cfg (emit (Refresher cfg) w)")
  have t: "trace w1 = trace w @ [Refresher cfg, TokenPost cfg]"
    using urlopen_token_frame(1) [of cfg "emit (Refresher cfg) w"] u by simp
  show "trace (snd (bot_get_valid_token cfg w)) = trace w @ [Refresher cfg, TokenPost cfg]"
    using t by (cases r)
      (auto simp add: bot_get_valid_token_def l v obtain_new_access_def u bot_save_token_def
         Let_def split: option.splits)
  show "fst (bot_get_valid_token cfg w) \<noteq> Inl NotAuthorized"
    by (cases r)
      (auto simp add: bot_get_valid_token_def l v obtain_new_access_def u bot_save_token_def
         Let_def split: option.splits)
qed

text \<open>
  C6, as the code has it. With no token file, or with one that holds the empty
  dictionary, \<open>_request\<close> and \<open>get_valid_token\<close> of \<open>saxo_client.py\<close> and
  \<open>get_valid_token\<close> of \<open>QQQ.py\<close> fail with the not-authorized error and leave the
  world as it was: no request, no refresher call. \<open>get_valid_token\<close> of
  \<open>bot-token-dennik.py\<close> with no token file calls the token endpoint once, with the
  refresh token of the configuration, and never fails with the not-authorized error.
\<close>

theorem empty_store:
  "(files w TOKEN_FILE = None \<or> stored w = Some empty_token \<longrightarrow>
      saxo_request m u p j retry w = (Inl NotAuthorized, w) \<and>
      saxo_get_valid_token w = (Inl NotAuthorized, w) \<and>
      qqq_get_valid_token w = (Inl NotAuthorized, w))
   \<and> (files w TOKEN_FILE = None \<longrightarrow>
      trace (snd (bot_get_valid_token cfg w)) = trace w @ [Refresher cfg, TokenPost cfg] \<and>
      fst (bot_get_valid_token cfg w) \<noteq> Inl NotAuthorized)"
  using saxo_empty_store [of w] qqq_empty_store [of w] bot_empty_store [of w cfg]
  by (auto simp: saxo_request.simps [of m u p j retry w])

theorem empty_store_witness:
  "saxo_request GET (''u'', []) [] None True quiet = (Inl NotAuthorized, quiet)
   \<and> trace (snd (bot_get_valid_token ''cfg'' quiet)) = [Refresher ''cfg'', TokenPost ''cfg'']"
proof -
  have "files quiet TOKEN_FILE = None" by (simp add: quiet_def)
  with empty_store [of quiet GET "(''u'', [])" "[]" None True "''cfg''"]
  have "saxo_request GET (''u'', []) [] None True quiet = (Inl NotAuthorized, quiet)"
    and "trace (snd (bot_get_valid_token ''cfg'' quiet)) = trace quiet @ [Refresher ''cfg'', TokenPost ''cfg'']"
    by blast+
  then show ?thesis by (simp add: quiet_def)
qed


text \<open>
  The claim as stated fails for \<open>bot-token-dennik.py\<close>: from an empty store
  \<open>example_api_call\<close> refreshes with the configured refresh token and goes on to the
  API.
\<close>

theorem empty_store_counterexample:
  "stored (quiet\<lparr>token_endpoint := [Body reply_b]\<rparr>) = None
   \<and> fst (example_api_call ''cfg'' ''u''
            (quiet\<lparr>token_endpoint := [Body reply_b], api_endpoint := [ApiOk ''ok'']\<rparr>)) = Inr ''ok''
   \<and> trace (snd (example_api_call ''cfg'' ''u''
            (quiet\<lparr>token_endpoint := [Body reply_b], api_endpoint := [ApiOk ''ok'']\<rparr>))) =
       [Refresher ''cfg'', TokenPost ''cfg'',
        ApiRequest \<lparr>req_method = GET, req_url = ''u'', req_queries = [], req_data = None,
                    req_bearer = ''a1''\<rparr>]"
  by (simp add: example_api_call_def bot_get_valid_token_def bot_load_token_def
      token_is_valid_def obtain_new_access_def bot_save_token_def bot_save_ops_def run_ops_def
      bot_api_get_def urlopen_token_def urlopen_api_def emit_def quiet_def reply_b_def
      empty_token_def stored_def Let_def)



section \<open>A reply without a lifetime\<close>






lemma qqq_save_token_frame [simp]:
  "trace (qqq_save_token d w) = trace w"
  "refresher_calls (qqq_save_token d w) = refresher_calls w"
  by (simp_all add: qqq_save_token_def refresher_calls_def)






section \<open>The state of the authorize URL\<close>

text \<open>
  C9. \<open>build_auth_url\<close> of \<open>get_saxo_token.py\<close> and of \<open>auth_code_flow.py\<close> puts a
  literal into the URL: whatever the configuration, two attempts carry the same
  \<open>state\<close>, \<open>saxo_demo_state_123\<close> in one script and \<open>test_state_123\<close> in the
  other.
\<close>

theorem state_is_a_fixed_literal:
  "map_of (query (gst_build_auth_url c1 r1)) ''state'' = Some ''saxo_demo_state_123''
   \<and> map_of (query (gst_build_auth_url c2 r2)) ''state'' = Some ''saxo_demo_state_123''
   \<and> map_of (query (acf_build_auth_url c1 r1)) ''state'' = Some ''test_state_123''
   \<and> map_of (query (acf_build_auth_url c2 r2)) ''state'' = Some ''test_state_123''"
  by (simp add: gst_build_auth_url_def acf_build_auth_url_def)


text \<open>\<open>QQQ.py\<close> sends the value it drew with \<open>secrets.token_urlsafe\<close>.\<close>

lemma qqq_state_is_the_drawn_value:
  "map_of (query (qqq_auth_url state)) ''state'' = Some state"
  by (simp add: qqq_auth_url_def)



section \<open>Saving the token file\<close>

text \<open>
  \<open>_save_token\<close> of \<open>saxo_client.py\<close>: in every state that can be met while it runs,
  the token file reads as before or as the complete new record; afterwards it holds the
  new record with mode \<open>0o600\<close>.
\<close>

lemma observable4:
  "observable [a, b, c, d] w =
     [w, fs_step a w, fs_step b (fs_step a w), fs_step c (fs_step b (fs_step a w)),
      fs_step d (fs_step c (fs_step b (fs_step a w)))]"
  by (simp add: observable_def run_ops_def upt_rec)

lemma observable2:
  "observable [a, b] w = [w, fs_step a w, fs_step b (fs_step a w)]"
  by (simp add: observable_def run_ops_def upt_rec)

lemma saxo_save_atomic:
  "list_all (\<lambda>s. read_token_file s = read_token_file w \<or> read_token_file s = Complete d)
     (observable (saxo_save_ops d) w)"
  "read_token_file (saxo_save_token d w) = Complete d"
  "map_option mode (files (saxo_save_token d w) TOKEN_FILE) = Some owner_only"
  by (simp_all add: saxo_save_ops_def saxo_save_token_def observable4 read_token_file_def
      run_ops_def)

text \<open>
  C7. \<open>save_token\<close> of \<open>QQQ.py\<close> and of \<open>bot-token-dennik.py\<close> write the token file
  in place. Saving \<open>reply_b\<close> over the stored \<open>tok_a\<close>, a reader meets the old record,
  then a file that does not parse, then the new record; and a token file that the save
  creates keeps the default mode (here \<open>0o644\<close> = 420), not \<open>0o600\<close> = 384.
\<close>

theorem in_place_save_is_not_atomic:
  "map read_token_file (observable (qqq_save_ops reply_b) (holding tok_a quiet)) =
     [Complete tok_a, Damaged, Complete reply_b]
   \<and> map read_token_file (observable (bot_save_ops reply_b) (holding tok_a quiet)) =
     [Complete tok_a, Damaged, Complete reply_b]
   \<and> map_option mode (files (qqq_save_token reply_b quiet) TOKEN_FILE) = Some 420
   \<and> map_option mode (files (bot_save_token reply_b quiet) TOKEN_FILE) = Some 420
   \<and> owner_only = 384"
  by (simp add: qqq_save_ops_def bot_save_ops_def qqq_save_token_def bot_save_token_def
      observable2 read_token_file_def run_ops_def holding_def quiet_def owner_only_def)



section \<open>The callback listener\<close>

lemma qqq_do_GET_rejects:
  assumes "cb_path rq = ''/callback''" and "cb_state rq \<noteq> Some state \<or> cb_code rq = None"
  shows "qqq_do_GET state rq srv = (400, srv\<lparr>srv_code := None, srv_event := True\<rparr>)"
  using assms by (auto simp: qqq_do_GET_def)

lemma qqq_do_GET_other_path:
  assumes "cb_path rq \<noteq> ''/callback''"
  shows "qqq_do_GET state rq srv = (404, srv)"
  using assms by (simp add: qqq_do_GET_def)

lemma qqq_serve_skips_other_paths:
  assumes "list_all (\<lambda>q. cb_path q \<noteq> ''/callback'') pre" and "\<not> srv_event srv"
  shows "qqq_serve state (pre @ rqs) srv =
           (replicate (length pre) 404 @ fst (qqq_serve state rqs srv), snd (qqq_serve state rqs srv))"
  using assms
  by (induction pre) (simp_all add: qqq_do_GET_other_path split: prod.splits)

lemma qqq_serve_code_origin:
  assumes "snd (qqq_serve state rqs srv) = srv'" and "srv_event srv'" and "\<not> srv_event srv"
    and "srv_code srv' = Some c"
  shows "\<exists>rq \<in> set rqs. cb_path rq = ''/callback'' \<and> cb_state rq = Some state \<and> cb_code rq = Some c"
  using assms
proof (induction rqs arbitrary: srv)
  case Nil
  then show ?case by simp
next
  case (Cons rq rqs)
  show ?case
  proof (cases "cb_path rq = ''/callback''")
    case False
    then have "qqq_do_GET state rq srv = (404, srv)" by (rule qqq_do_GET_other_path)
    then have "snd (qqq_serve state rqs srv) = srv'"
      using Cons.prems(1,3) by (simp split: prod.splits)
    from Cons.IH [OF this Cons.prems(2,3,4)] show ?thesis by auto
  next
    case True
    then show ?thesis
      using Cons.prems by (auto simp: qqq_do_GET_def split: if_splits)
  qed
qed

lemma qqq_await_code_origin:
  assumes "qqq_await_code state rqs = Some c"
  shows "\<exists>rq \<in> set rqs. cb_path rq = ''/callback'' \<and> cb_state rq = Some state \<and> cb_code rq = Some c"
proof -
  let ?srv0 = "\<lparr>srv_code = None, srv_event = False\<rparr>"
  obtain sts srv where s: "qqq_serve state rqs ?srv0 = (sts, srv)"
    by (cases "qqq_serve state rqs ?srv0")
  from assms s have "srv_event srv" "srv_code srv = Some c"
    by (auto simp: qqq_await_code_def split: if_splits)
  with qqq_serve_code_origin [of state rqs ?srv0 srv c] s show ?thesis by simp
qed

lemma qqq_rejected_ends_wait:
  assumes "list_all (\<lambda>q. cb_path q \<noteq> ''/callback'') pre" and "cb_path rq = ''/callback''"
    and "cb_state rq \<noteq> Some state \<or> cb_code rq = None"
  shows "qqq_serve state (pre @ rq # rest) \<lparr>srv_code = None, srv_event = False\<rparr> =
           (replicate (length pre) 404 @ [400], \<lparr>srv_code = None, srv_event = True\<rparr>)"
    and "qqq_await_code state (pre @ rq # rest) = None"
proof -
  let ?srv0 = "\<lparr>srv_code = None, srv_event = False\<rparr>"
  have one: "qqq_serve state (rq # rest) ?srv0 = ([400], \<lparr>srv_code = None, srv_event = True\<rparr>)"
    using qqq_do_GET_rejects [OF assms(2,3), of ?srv0] by simp
  show s: "qqq_serve state (pre @ rq # rest) ?srv0 =
           (replicate (length pre) 404 @ [400], \<lparr>srv_code = None, srv_event = True\<rparr>)"
    using qqq_serve_skips_other_paths [OF assms(1), of ?srv0 state "rq # rest"] one by simp
  show "qqq_await_code state (pre @ rq # rest) = None"
    by (simp add: qqq_await_code_def s)
qed

text \<open>
  C5, as the code has it (\<open>QQQ.py\<close>). A request to \<open>/callback\<close> whose \<open>state\<close> is not
  the expected one, or that has no \<open>code\<close>, is answered 400, stores no code and sets the
  event. A code that the wait hands on comes from a request to \<open>/callback\<close> that carried
  the expected state. When the first request to \<open>/callback\<close> is such a rejected one
  (requests to other paths before it are answered 404 and change nothing), the wait is
  over with that request and the run ends without a code.
\<close>

theorem rejected_callback:
  "(\<forall>rq srv. cb_path rq = ''/callback'' \<and> (cb_state rq \<noteq> Some state \<or> cb_code rq = None) \<longrightarrow>
      qqq_do_GET state rq srv = (400, srv\<lparr>srv_code := None, srv_event := True\<rparr>))
   \<and> (\<forall>c. qqq_await_code state rqs = Some c \<longrightarrow>
      (\<exists>rq \<in> set rqs. cb_path rq = ''/callback'' \<and> cb_state rq = Some state \<and> cb_code rq = Some c))
   \<and> (\<forall>pre rq rest. rqs = pre @ rq # rest \<and> list_all (\<lambda>q. cb_path q \<noteq> ''/callback'') pre \<and>
         cb_path rq = ''/callback'' \<and> (cb_state rq \<noteq> Some state \<or> cb_code rq = None) \<longrightarrow>
      qqq_serve state rqs \<lparr>srv_code = None, srv_event = False\<rparr> =
        (replicate (length pre) 404 @ [400], \<lparr>srv_code = None, srv_event = True\<rparr>) \<and>
      qqq_await_code state rqs = None)"
proof (intro conjI allI impI)
  fix rq :: callback and srv :: listener
  assume "cb_path rq = ''/callback'' \<and> (cb_state rq \<noteq> Some state \<or> cb_code rq = None)"
  then show "qqq_do_GET state rq srv = (400, srv\<lparr>srv_code := None, srv_event := True\<rparr>)"
    using qqq_do_GET_rejects [of rq state srv] by blast
next
  fix c
  assume "qqq_await_code state rqs = Some c"
  then show "\<exists>rq \<in> set rqs. cb_path rq = ''/callback'' \<and> cb_state rq = Some state \<and> cb_code rq = Some c"
    by (rule qqq_await_code_origin)
next
  fix pre rest :: "callback list" and rq :: callback
  assume h: "rqs = pre @ rq # rest \<and> list_all (\<lambda>q. cb_path q \<noteq> ''/callback'') pre \<and>
         cb_path rq = ''/callback'' \<and> (cb_state rq \<noteq> Some state \<or> cb_code rq = None)"
  then show "qqq_serve state rqs \<lparr>srv_code = None, srv_event = False\<rparr> =
        (replicate (length pre) 404 @ [400], \<lparr>srv_code = None, srv_event = True\<rparr>)"
    using qqq_rejected_ends_wait(1) [of pre rq state rest] by simp
  from h show "qqq_await_code state rqs = None"
    using qqq_rejected_ends_wait(2) [of pre rq state rest] by simp
qed

theorem rejected_callback_witness:
  "qqq_do_GET ''S'' stray \<lparr>srv_code = None, srv_event = False\<rparr> =
     (400, \<lparr>srv_code = None, srv_event = True\<rparr>)
   \<and> qqq_await_code ''S'' [stray, genuine] = None
   \<and> cb_state genuine = Some ''S''"
proof -
  have a: "cb_path stray = ''/callback'' \<and> (cb_state stray \<noteq> Some ''S'' \<or> cb_code stray = None)"
    by (simp add: stray_def)
  have b: "[stray, genuine] = [] @ stray # [genuine] \<and>
           list_all (\<lambda>q. cb_path q \<noteq> ''/callback'') [] \<and>
           cb_path stray = ''/callback'' \<and> (cb_state stray \<noteq> Some ''S'' \<or> cb_code stray = None)"
    by (simp add: stray_def)
  have c: "qqq_await_code ''S'' [genuine] = Some ''c0''"
    by (simp add: qqq_await_code_def qqq_do_GET_def genuine_def)
  note t = rejected_callback [of "''S''" "[stray, genuine]"]
  note t1 = rejected_callback [of "''S''" "[genuine]"]
  from t a have "qqq_do_GET ''S'' stray \<lparr>srv_code = None, srv_event = False\<rparr> =
     (400, \<lparr>srv_code = None, srv_event = False\<rparr>\<lparr>srv_code := None, srv_event := True\<rparr>)"
    by blast
  moreover from t b have "qqq_await_code ''S'' [stray, genuine] = None"
    by blast
  moreover from t1 c have "\<exists>rq \<in> set [genuine]. cb_path rq = ''/callback'' \<and>
      cb_state rq = Some ''S'' \<and> cb_code rq = Some ''c0''"
    by blast
  ultimately show ?thesis by simp
qed


text \<open>
  The claim as stated fails: after a stray request the listener does not keep waiting.
  The genuine redirect that follows is not served, although alone it would have been
  accepted.
\<close>

theorem rejected_callback_counterexample:
  "qqq_serve ''S'' [stray, genuine] \<lparr>srv_code = None, srv_event = False\<rparr> =
     ([400], \<lparr>srv_code = None, srv_event = True\<rparr>)
   \<and> qqq_await_code ''S'' [stray, genuine] = None
   \<and> qqq_await_code ''S'' [genuine] = Some ''c0''"
  by (simp add: qqq_await_code_def qqq_do_GET_def stray_def genuine_def)


text \<open>
  \<open>get_saxo_token.py\<close> never reads \<open>state\<close>: the first request that has a code ends
  the loop with that code, whatever its state; requests without a code are answered 400
  and the loop goes on, for as long as no code arrives.
\<close>

lemma start_local_server_takes_any_state:
  "cb_code rq = Some c \<Longrightarrow> start_local_server (rq # rqs) = Some c"
  by (simp add: gst_do_GET_def)

lemma start_local_server_skips_codeless:
  "cb_code rq = None \<Longrightarrow> start_local_server (rq # rqs) = start_local_server rqs"
  by (simp add: gst_do_GET_def)


section \<open>The dispatcher after a 401\<close>







subsection \<open>\<open>example_api_call\<close> of \<open>bot-token-dennik.py\<close>\<close>

lemma bot_save_token_frame [simp]:
  "trace (bot_save_token d w) = trace w"
  "api_endpoint (bot_save_token d w) = api_endpoint w"
  by (simp_all add: bot_save_token_def)




lemma invalidate_token_frame [simp]:
  "trace (invalidate_token w) = trace w"
  "api_endpoint (invalidate_token w) = api_endpoint w"
  by (simp_all add: invalidate_token_def split: option.splits)







text \<open>
  What the retried request asks for: with parameters, the URL of the second request has
  the query twice, since \<open>_request\<close> passes on the URL it has already extended.
\<close>

lemma retried_request_url:
  "map req_queries (api_requests (snd (saxo_get ''u'' [(''k'', ''v'')]
      (holding tok_a (quiet\<lparr>token_endpoint := [Body reply_b],
          api_endpoint := [ApiHttpError 401, ApiOk ''ok'']\<rparr>))))) =
   [[[(''k'', ''v'')]], [[(''k'', ''v'')], [(''k'', ''v'')]]]"
  by (simp add: run_simps api_requests_def)

end
